theory Spec2Isabelle
  imports Main "HOL-Library.AList" "HOL-Library.Sublist" "HOL-Library.Multiset"
begin

section \<open>The kube\_inventory input: client lifecycle and collector selection\<close>

text \<open>
  This theory embeds \<^verbatim>\<open>plugins/inputs/kube_inventory/kube_state.go\<close>: the
  configuration object \<^verbatim>\<open>KubernetesInventory\<close>, the process-wide map
  \<^verbatim>\<open>availableCollectors\<close>, and the two methods \<^verbatim>\<open>initClient\<close> and
  \<^verbatim>\<open>Gather\<close>.

  What the Go code mutates is passed explicitly: the package-level map and the receiver
  \<^verbatim>\<open>ki\<close> go in and come out of every function. What the code calls but does not
  define (\<^verbatim>\<open>ioutil.ReadFile\<close>, \<^verbatim>\<open>newClient\<close>, the bodies of the
  collector routines) is a field of the record \<open>world\<close>, so that every theorem holds for
  any behaviour of these collaborators unless it says otherwise.
\<close>

subsection \<open>Data\<close>

text \<open>A Go \<^verbatim>\<open>error\<close> value; only its message is kept.\<close>

datatype error = Error string

text \<open>
  The seven collector routines the map literal names. Their bodies live in other files;
  here a routine is known by its name only.
\<close>

datatype collector =
    collectDaemonSets
  | collectDeployments
  | collectNodes
  | collectPersistentVolumes
  | collectPersistentVolumeClaims
  | collectPods
  | collectStatefulSets

text \<open>
  The struct \<^verbatim>\<open>KubernetesInventory\<close>. The two \<^verbatim>\<open>internal.Duration\<close> fields
  are a number of nanoseconds. The embedded \<^verbatim>\<open>tls.ClientConfig\<close> and the type
  \<^verbatim>\<open>client\<close> are declared elsewhere and are type parameters; the pointer
  \<^verbatim>\<open>*client\<close> is an option, \<open>None\<close> being \<^verbatim>\<open>nil\<close>.
\<close>

record ('c, 'tls) KubernetesInventory =
  URL :: string
  BearerToken :: string
  BearerTokenString :: string
  Namespace :: string
  ResponseTimeout :: int
  ResourceExclude :: "string list"
  ResourceInclude :: "string list"
  MaxConfigMapAge :: int
  ClientConfig :: 'tls
  client :: "'c option"

text \<open>
  The Go map \<^verbatim>\<open>map[string]func(...)\<close> is an association list with the routine's
  name as key. A Go map holds a key once (\<open>distinct (map fst reg)\<close>), and the order
  of a \<^verbatim>\<open>range\<close> over it is not specified: the order of the list stands for the order
  of one such iteration.
\<close>

type_synonym registry = "(string \<times> collector) list"

definition availableCollectors :: registry where
  "availableCollectors =
     [(''daemonsets'', collectDaemonSets),
      (''deployments'', collectDeployments),
      (''nodes'', collectNodes),
      (''persistentvolumes'', collectPersistentVolumes),
      (''persistentvolumeclaims'', collectPersistentVolumeClaims),
      (''pods'', collectPods),
      (''statefulsets'', collectStatefulSets)]"

text \<open>
  The collaborators of one poll.
  \<^item> \<open>ReadFile path\<close> is \<^verbatim>\<open>ioutil.ReadFile\<close>: the error, or the bytes of the file
    (the code drops the bytes when there is an error).
  \<^item> \<open>newClient url namespace token timeout tls\<close> is the constructor of the API client;
    as in Go it returns a pair, the handle and the error.
  \<^item> \<open>collect f ki\<close> is what the routine \<open>f\<close>, called with the configuration \<open>ki\<close>, hands
    to the accumulator (fields and errors alike), in the order it hands them over.
  \<^item> \<open>schedule\<close> is the choice of the Go scheduler that matters when a goroutine panics.
\<close>

text \<open>
  A goroutine that panics runs its deferred \<^verbatim>\<open>wg.Done()\<close> and then the run-time system
  ends the process, while the other goroutines keep running until it has done so.
  \<^item> \<open>ExitFirst p\<close>: the process ends while \<^verbatim>\<open>Gather\<close> has not returned; the unit at
    position \<open>i\<close> of the loop had handed the first \<open>p i\<close> of its records to the
    accumulator (none, if the loop had not reached it).
  \<^item> \<open>ReturnFirst\<close>: every other unit finishes and \<^verbatim>\<open>wg.Wait()\<close>, released by the
    deferred \<^verbatim>\<open>wg.Done()\<close>, lets \<^verbatim>\<open>Gather\<close> return before the process ends.
\<close>

datatype schedule = ExitFirst "nat \<Rightarrow> nat" | ReturnFirst

record ('c, 'tls, 'm) world =
  ReadFile :: "string \<Rightarrow> error + string"
  newClient :: "string \<Rightarrow> string \<Rightarrow> string \<Rightarrow> int \<Rightarrow> 'tls \<Rightarrow> 'c option \<times> error option"
  collect :: "collector \<Rightarrow> ('c, 'tls) KubernetesInventory \<Rightarrow> 'm list"
  schedule :: schedule

text \<open>The calls \<^verbatim>\<open>initClient\<close> makes to its collaborators, in the order it makes them.\<close>

datatype 'tls call =
    CallReadFile string
  | CallNewClient string string string int 'tls

text \<open>
  How a poll ends: \<^verbatim>\<open>Gather\<close> returns its \<^verbatim>\<open>error\<close> (\<open>None\<close> is
  \<^verbatim>\<open>nil\<close>) and the process goes on, or a goroutine panics, which ends the process.
\<close>

datatype outcome = Returned "error option" | Panicked

text \<open>
  What one poll did: the collaborator calls of client construction, the function values
  of the \<^verbatim>\<open>go\<close> statements of the loop in the order the loop reaches them
  (\<open>None\<close> is a nil function value), what the routines gave to the accumulator (a
  multiset: the goroutines interleave freely), how the poll ended, and the value
  \<^verbatim>\<open>Gather\<close> handed to its caller (\<open>None\<close> when the process ended before
  \<^verbatim>\<open>Gather\<close> returned).
\<close>

record ('tls, 'm) report =
  calls :: "'tls call list"
  launched :: "collector option list"
  emitted :: "'m multiset"
  outcome :: outcome
  result :: "error option option"

subsection \<open>\<^verbatim>\<open>strings.TrimSpace\<close>\<close>

text \<open>
  Go strings are byte strings in UTF-8, and \<^verbatim>\<open>strings.TrimSpace\<close> removes from both
  ends every code point for which \<^verbatim>\<open>unicode.IsSpace\<close> holds: tab, line feed, vertical
  tab, form feed, carriage return, space, U+0085, U+00A0, U+1680, U+2000 to U+200A, U+2028,
  U+2029, U+202F, U+205F and U+3000. \<open>space_runes\<close> lists their UTF-8 encodings. A byte
  that starts no valid encoding decodes to U+FFFD, which is not a space, so trimming stops
  there.
\<close>

definition space_runes :: "string list" where
  "space_runes =
     [[CHR 0x09], [CHR 0x0A], [CHR 0x0B], [CHR 0x0C], [CHR 0x0D], [CHR 0x20],
      [CHR 0xC2, CHR 0x85], [CHR 0xC2, CHR 0xA0],
      [CHR 0xE1, CHR 0x9A, CHR 0x80],
      [CHR 0xE2, CHR 0x80, CHR 0x80], [CHR 0xE2, CHR 0x80, CHR 0x81],
      [CHR 0xE2, CHR 0x80, CHR 0x82], [CHR 0xE2, CHR 0x80, CHR 0x83],
      [CHR 0xE2, CHR 0x80, CHR 0x84], [CHR 0xE2, CHR 0x80, CHR 0x85],
      [CHR 0xE2, CHR 0x80, CHR 0x86], [CHR 0xE2, CHR 0x80, CHR 0x87],
      [CHR 0xE2, CHR 0x80, CHR 0x88], [CHR 0xE2, CHR 0x80, CHR 0x89],
      [CHR 0xE2, CHR 0x80, CHR 0x8A],
      [CHR 0xE2, CHR 0x80, CHR 0xA8], [CHR 0xE2, CHR 0x80, CHR 0xA9],
      [CHR 0xE2, CHR 0x80, CHR 0xAF],
      [CHR 0xE2, CHR 0x81, CHR 0x9F],
      [CHR 0xE3, CHR 0x80, CHR 0x80]]"

text \<open>\<open>strip_rune rs s\<close> removes from the front of \<open>s\<close> the first of \<open>rs\<close> it starts with.\<close>

fun strip_rune :: "string list \<Rightarrow> string \<Rightarrow> string option" where
  "strip_rune [] s = None"
| "strip_rune (r # rs) s =
     (if r \<noteq> [] \<and> prefix r s then Some (drop (length r) s) else strip_rune rs s)"

function trim_runes :: "string list \<Rightarrow> string \<Rightarrow> string" where
  "trim_runes rs s = (case strip_rune rs s of None \<Rightarrow> s | Some t \<Rightarrow> trim_runes rs t)"
  by pat_completeness auto
termination
proof (relation "measure (\<lambda>(rs, s). length s)")
  show "wf (measure (\<lambda>(rs :: string list, s :: string). length s))"
    by simp
next
  fix rs :: "string list" and s t :: string
  assume "strip_rune rs s = Some t"
  then have "length t < length s"
    by (induction rs) (auto split: if_splits simp: prefix_def)
  then show "((rs, t), (rs, s)) \<in> measure (\<lambda>(rs, s). length s)"
    by simp
qed

definition TrimLeft :: "string \<Rightarrow> string" where
  "TrimLeft s = trim_runes space_runes s"

text \<open>Trimming the right end is trimming the left end of the reversed string.\<close>

definition TrimRight :: "string \<Rightarrow> string" where
  "TrimRight s = rev (trim_runes (map rev space_runes) (rev s))"

definition TrimSpace :: "string \<Rightarrow> string" where
  "TrimSpace s = TrimRight (TrimLeft s)"

subsection \<open>\<^verbatim>\<open>initClient\<close>\<close>

text \<open>
  \<^verbatim>\<open>initClient\<close> returns the map and the receiver as it leaves them, the pair
  \<^verbatim>\<open>(*client, error)\<close> it returns, and the collaborator calls it made.
  With an empty include list it first deletes every excluded name from the map. With a
  token file configured it reads the file and returns \<^verbatim>\<open>nil, err\<close> when that fails,
  otherwise it overwrites \<^verbatim>\<open>BearerTokenString\<close> with the trimmed content. Its last
  statement returns whatever \<^verbatim>\<open>newClient\<close> returns.
\<close>

definition initClient ::
  "('c, 'tls, 'm) world \<Rightarrow> registry \<Rightarrow> ('c, 'tls) KubernetesInventory \<Rightarrow>
     registry \<times> ('c, 'tls) KubernetesInventory \<times> ('c option \<times> error option) \<times> 'tls call list"
where
  "initClient w reg ki =
     (let reg' = (if ResourceInclude ki = [] then fold AList.delete (ResourceExclude ki) reg
                  else reg)
      in if BearerToken ki \<noteq> [] then
           (case ReadFile w (BearerToken ki) of
              Inl err \<Rightarrow> (reg', ki, (None, Some err), [CallReadFile (BearerToken ki)])
            | Inr token \<Rightarrow>
                (let ki' = ki\<lparr>BearerTokenString := TrimSpace token\<rparr>
                 in (reg', ki',
                     newClient w (URL ki') (Namespace ki') (BearerTokenString ki')
                       (ResponseTimeout ki') (ClientConfig ki'),
                     [CallReadFile (BearerToken ki),
                      CallNewClient (URL ki') (Namespace ki') (BearerTokenString ki')
                        (ResponseTimeout ki') (ClientConfig ki')])))
         else
           (reg', ki,
            newClient w (URL ki) (Namespace ki) (BearerTokenString ki)
              (ResponseTimeout ki) (ClientConfig ki),
            [CallNewClient (URL ki) (Namespace ki) (BearerTokenString ki)
               (ResponseTimeout ki) (ClientConfig ki)]))"

subsection \<open>\<^verbatim>\<open>Gather\<close>\<close>

text \<open>
  The report of a poll in which a launched function value is nil, \<open>fs\<close> being the
  function values of the loop and \<open>cs\<close> the calls of client construction. The process
  ends by the panic in every run. Under \<open>ExitFirst p\<close> the poll never returns and each
  unit has emitted the part of its records that \<open>p\<close> gives; under \<open>ReturnFirst\<close> every
  unit with a routine has emitted all its records and \<^verbatim>\<open>Gather\<close> has returned
  \<^verbatim>\<open>nil\<close> by the time the process ends.
\<close>

definition crash_report ::
  "('c, 'tls, 'm) world \<Rightarrow> ('c, 'tls) KubernetesInventory \<Rightarrow> 'tls call list \<Rightarrow>
     collector option list \<Rightarrow> ('tls, 'm) report"
where
  "crash_report w ki cs fs =
     (case schedule w of
        ExitFirst p \<Rightarrow>
          \<lparr>calls = cs, launched = fs,
           emitted = mset (concat (map (\<lambda>(i, f). case f of None \<Rightarrow> []
                                         | Some g \<Rightarrow> take (p i) (collect w g ki))
                             (enumerate 0 fs))),
           outcome = Panicked, result = None\<rparr>
      | ReturnFirst \<Rightarrow>
          \<lparr>calls = cs, launched = fs,
           emitted = mset (concat (map (\<lambda>f. case f of None \<Rightarrow> []
                                         | Some g \<Rightarrow> collect w g ki) fs)),
           outcome = Panicked, result = Some None\<rparr>)"

text \<open>
  \<^verbatim>\<open>Gather\<close> returns the map, the receiver and the report of the poll.

  With a nil client it calls \<^verbatim>\<open>initClient\<close> and assigns the returned handle to
  \<^verbatim>\<open>ki.client\<close> whatever the error is; a non-nil error is returned at once. Otherwise
  it starts one goroutine per entry of the map (empty include list), or one per name of the
  include list with the function value \<^verbatim>\<open>availableCollectors[n]\<close>, which is nil for a
  name the map does not hold. Calling a nil function value is a run-time panic in Go, and
  a panic no goroutine recovers ends the process: then the report is the \<open>crash_report\<close>
  above. When no function value is nil
  the wait group lets \<^verbatim>\<open>Gather\<close> return \<^verbatim>\<open>nil\<close> after every routine has run
  (the bodies of the routines are in other files: each is taken to return, having given
  \<open>collect w f ki\<close> to the accumulator).
\<close>

definition Gather ::
  "('c, 'tls, 'm) world \<Rightarrow> registry \<Rightarrow> ('c, 'tls) KubernetesInventory \<Rightarrow>
     registry \<times> ('c, 'tls) KubernetesInventory \<times> ('tls, 'm) report"
where
  "Gather w reg ki =
     (case (if client ki = None then
              (case initClient w reg ki of
                 (reg', ki', (c, err), cs) \<Rightarrow> (reg', ki'\<lparr>client := c\<rparr>, err, cs))
            else (reg, ki, None, []))
      of (reg1, ki1, err, cs) \<Rightarrow>
        (case err of
           Some e \<Rightarrow>
             (reg1, ki1,
              \<lparr>calls = cs, launched = [], emitted = {#}, outcome = Returned (Some e),
               result = Some (Some e)\<rparr>)
         | None \<Rightarrow>
             (let fs = (if ResourceInclude ki1 = [] then map (Some \<circ> snd) reg1
                        else map (map_of reg1) (ResourceInclude ki1))
              in if None \<in> set fs then (reg1, ki1, crash_report w ki1 cs fs)
                 else
                   (reg1, ki1,
                    \<lparr>calls = cs, launched = fs,
                     emitted = mset (concat (map (\<lambda>f. collect w (the f) ki1) fs)),
                     outcome = Returned None, result = Some None\<rparr>))))"

text \<open>The three components of what \<open>Gather\<close> returns.\<close>

definition registry_after ::
  "('c, 'tls, 'm) world \<Rightarrow> registry \<Rightarrow> ('c, 'tls) KubernetesInventory \<Rightarrow> registry" where
  "registry_after w reg ki = fst (Gather w reg ki)"

definition config_after ::
  "('c, 'tls, 'm) world \<Rightarrow> registry \<Rightarrow> ('c, 'tls) KubernetesInventory \<Rightarrow>
     ('c, 'tls) KubernetesInventory" where
  "config_after w reg ki = fst (snd (Gather w reg ki))"

definition report_of ::
  "('c, 'tls, 'm) world \<Rightarrow> registry \<Rightarrow> ('c, 'tls) KubernetesInventory \<Rightarrow> ('tls, 'm) report" where
  "report_of w reg ki = snd (snd (Gather w reg ki))"

text \<open>What \<open>initClient\<close> returns, by component.\<close>

definition init_registry ::
  "('c, 'tls, 'm) world \<Rightarrow> registry \<Rightarrow> ('c, 'tls) KubernetesInventory \<Rightarrow> registry" where
  "init_registry w reg ki = fst (initClient w reg ki)"

definition init_config ::
  "('c, 'tls, 'm) world \<Rightarrow> registry \<Rightarrow> ('c, 'tls) KubernetesInventory \<Rightarrow>
     ('c, 'tls) KubernetesInventory" where
  "init_config w reg ki = fst (snd (initClient w reg ki))"

definition init_result ::
  "('c, 'tls, 'm) world \<Rightarrow> registry \<Rightarrow> ('c, 'tls) KubernetesInventory \<Rightarrow>
     'c option \<times> error option" where
  "init_result w reg ki = fst (snd (snd (initClient w reg ki)))"

definition init_calls ::
  "('c, 'tls, 'm) world \<Rightarrow> registry \<Rightarrow> ('c, 'tls) KubernetesInventory \<Rightarrow> 'tls call list" where
  "init_calls w reg ki = snd (snd (snd (initClient w reg ki)))"

text \<open>
  A poll gets as far as the collectors when \<^verbatim>\<open>Gather\<close> finds a client handle, or
  when \<^verbatim>\<open>initClient\<close> returns a nil error.
\<close>

definition client_ready ::
  "('c, 'tls, 'm) world \<Rightarrow> registry \<Rightarrow> ('c, 'tls) KubernetesInventory \<Rightarrow> bool" where
  "client_ready w reg ki \<longleftrightarrow> client ki \<noteq> None \<or> snd (init_result w reg ki) = None"

text \<open>
  Modelled from the spec: \<^verbatim>\<open>newClient\<close> is defined in another file of the package.
  The spec's data model says of the client handle that an initialization failure must not
  leave a partially-usable handle: with an error, \<^verbatim>\<open>newClient\<close> returns a nil handle.
\<close>

definition nil_on_error :: "('c, 'tls, 'm) world \<Rightarrow> bool" where
  "nil_on_error w \<longleftrightarrow>
     (\<forall>url ns token timeout tls h e.
        newClient w url ns token timeout tls = (h, Some e) \<longrightarrow> h = None)"

subsection \<open>Reading a report\<close>

text \<open>The routines among the function values of a report (the nil ones left out).\<close>

definition routines :: "collector option list \<Rightarrow> collector list" where
  "routines fs = concat (map (\<lambda>f. case f of None \<Rightarrow> [] | Some g \<Rightarrow> [g]) fs)"

text \<open>
  The include list intersected with the registry: the routines registered under a name of
  the include list.
\<close>

definition include_selection :: "registry \<Rightarrow> string list \<Rightarrow> collector set" where
  "include_selection reg inc = set (routines (map (map_of reg) inc))"

subsection \<open>Sequences of polls\<close>

text \<open>
  Repeated calls of \<^verbatim>\<open>Gather\<close> on one receiver, one \<open>world\<close> per call; each call
  starts from the map and the receiver the call before left. A panic ends the process and
  with it the sequence.
\<close>

fun polls ::
  "('c, 'tls, 'm) world list \<Rightarrow> registry \<Rightarrow> ('c, 'tls) KubernetesInventory \<Rightarrow>
     (registry \<times> ('c, 'tls) KubernetesInventory \<times> ('tls, 'm) report) list"
where
  "polls [] reg ki = []"
| "polls (w # ws) reg ki =
     (case Gather w reg ki of
        (reg', ki', r) \<Rightarrow>
          (reg', ki', r) # (if outcome r = Panicked then [] else polls ws reg' ki'))"

text \<open>The number of polls of a sequence that called \<^verbatim>\<open>initClient\<close>.\<close>

definition constructions ::
  "(registry \<times> ('c, 'tls) KubernetesInventory \<times> ('tls, 'm) report) list \<Rightarrow> nat" where
  "constructions ps = length (filter (\<lambda>p. calls (snd (snd p)) \<noteq> []) ps)"

subsection \<open>Concrete configurations and collaborators\<close>

text \<open>
  The object the plugin's factory in \<^verbatim>\<open>init\<close> builds: a response timeout of five
  seconds, the namespace \<^verbatim>\<open>default\<close>, every other field at its zero value. Here the
  client is known by the token it was built with and the TLS options are left empty.
\<close>

definition new_input :: "(string, unit) KubernetesInventory" where
  "new_input =
     \<lparr>URL = [], BearerToken = [], BearerTokenString = [], Namespace = ''default'',
      ResponseTimeout = 5 * 1000000000, ResourceExclude = [], ResourceInclude = [],
      MaxConfigMapAge = 0, ClientConfig = (), client = None\<rparr>"

text \<open>
  A world with one readable file, whose content has white space on both sides, and a
  constructor that always succeeds. The routine for pods reports an error to the
  accumulator, the others a measurement. Should a goroutine panic, the process ends at
  once.
\<close>

definition token_file :: string where
  "token_file = ''/var/run/secrets/token''"

definition token_content :: string where
  "token_content = [CHR 0x20, CHR 0x09] @ ''abc_123'' @ [CHR 0x0A]"

definition good_world :: "(string, unit, string) world" where
  "good_world =
     \<lparr>ReadFile = (\<lambda>path. if path = token_file then Inr token_content
                           else Inl (Error ''no such file or directory'')),
      newClient = (\<lambda>url ns token timeout tls. (Some token, None)),
      collect = (\<lambda>f ki. if f = collectPods then [''error: pods is forbidden'']
                         else [''measurement'']),
      schedule = ExitFirst (\<lambda>i. 0)\<rparr>"

text \<open>The same world with a constructor that always fails.\<close>

definition bad_world :: "(string, unit, string) world" where
  "bad_world =
     good_world\<lparr>newClient := (\<lambda>url ns token timeout tls.
                                (None, Some (Error ''tls: failed to find any PEM data'')))\<rparr>"

section \<open>Facts about the embedding\<close>

subsection \<open>The registry after deletions\<close>

lemma fold_delete_filter:
  "fold AList.delete ks reg = filter (\<lambda>p. fst p \<notin> set ks) reg"
proof (induction ks arbitrary: reg)
  case Nil
  show ?case by simp
next
  case (Cons k ks)
  have "AList.delete k reg = filter (\<lambda>p. fst p \<noteq> k) reg"
    by (simp add: AList.delete_eq case_prod_unfold eq_commute)
  then show ?case
    by (simp add: Cons.IH conj_commute)
qed

lemma map_of_fold_delete:
  "map_of (fold AList.delete ks reg) = map_of reg |` (- set ks)"
proof (induction ks arbitrary: reg)
  case Nil
  show ?case by simp
next
  case (Cons k ks)
  show ?case
    by (rule ext) (simp add: Cons.IH AList.delete_conv' restrict_map_def)
qed

lemma distinct_fold_delete:
  "distinct (map fst reg) \<Longrightarrow> distinct (map fst (fold AList.delete ks reg))"
  by (simp add: fold_delete_filter distinct_map_filter)

lemma init_registry_eq:
  "init_registry w reg ki =
     (if ResourceInclude ki = [] then fold AList.delete (ResourceExclude ki) reg else reg)"
  by (simp add: init_registry_def initClient_def Let_def split: sum.splits)

lemma init_calls_not_Nil: "init_calls w reg ki \<noteq> []"
  by (simp add: init_calls_def initClient_def Let_def split: sum.splits)

lemma initClient_parts:
  "initClient w reg ki =
     (init_registry w reg ki, init_config w reg ki, init_result w reg ki, init_calls w reg ki)"
  by (simp add: init_registry_def init_config_def init_result_def init_calls_def)

lemma init_result_eq:
  "init_result w reg ki =
     (if BearerToken ki \<noteq> [] then
        (case ReadFile w (BearerToken ki) of
           Inl err \<Rightarrow> (None, Some err)
         | Inr token \<Rightarrow>
             newClient w (URL ki) (Namespace ki) (TrimSpace token) (ResponseTimeout ki)
               (ClientConfig ki))
      else newClient w (URL ki) (Namespace ki) (BearerTokenString ki) (ResponseTimeout ki)
             (ClientConfig ki))"
  by (simp add: init_result_def initClient_def Let_def split: sum.splits)

lemma init_calls_eq:
  "init_calls w reg ki =
     (if BearerToken ki \<noteq> [] then
        (case ReadFile w (BearerToken ki) of
           Inl err \<Rightarrow> [CallReadFile (BearerToken ki)]
         | Inr token \<Rightarrow>
             [CallReadFile (BearerToken ki),
              CallNewClient (URL ki) (Namespace ki) (TrimSpace token) (ResponseTimeout ki)
                (ClientConfig ki)])
      else [CallNewClient (URL ki) (Namespace ki) (BearerTokenString ki) (ResponseTimeout ki)
              (ClientConfig ki)])"
  by (simp add: init_calls_def initClient_def Let_def split: sum.splits)

lemma newClient_nil_on_error:
  assumes "nil_on_error w" and "snd (newClient w u n t d c) = Some e"
  shows "fst (newClient w u n t d c) = None"
proof -
  have "newClient w u n t d c = (fst (newClient w u n t d c), Some e)"
    using assms(2) by (simp add: prod_eq_iff)
  with assms(1) show ?thesis
    unfolding nil_on_error_def by blast
qed

lemma init_result_nil_on_error:
  assumes "nil_on_error w" and "snd (init_result w reg ki) = Some e"
  shows "fst (init_result w reg ki) = None"
  using assms
  by (auto simp: init_result_eq newClient_nil_on_error split: if_splits sum.splits)

lemma crash_report_fields [simp]:
  "calls (crash_report w ki cs fs) = cs"
  "launched (crash_report w ki cs fs) = fs"
  "outcome (crash_report w ki cs fs) = Panicked"
  by (simp_all add: crash_report_def split: schedule.splits)

lemma Gather_cached:
  assumes "client ki = Some c"
  shows "Gather w reg ki =
     (let fs = (if ResourceInclude ki = [] then map (Some \<circ> snd) reg
                else map (map_of reg) (ResourceInclude ki))
      in (reg, ki,
          if None \<in> set fs then crash_report w ki [] fs
          else \<lparr>calls = [], launched = fs,
                emitted = mset (concat (map (\<lambda>f. collect w (the f) ki) fs)),
                outcome = Returned None, result = Some None\<rparr>))"
  using assms by (simp add: Gather_def Let_def)

lemma Gather_init_failed:
  assumes "client ki = None" and "snd (init_result w reg ki) = Some e"
  shows "Gather w reg ki =
     (init_registry w reg ki, (init_config w reg ki)\<lparr>client := fst (init_result w reg ki)\<rparr>,
      \<lparr>calls = init_calls w reg ki, launched = [], emitted = {#},
       outcome = Returned (Some e), result = Some (Some e)\<rparr>)"
proof -
  obtain c where "init_result w reg ki = (c, Some e)"
    using assms(2) by (metis prod.collapse)
  then show ?thesis
    using assms(1) by (simp add: Gather_def initClient_parts)
qed

lemma Gather_init_ok:
  assumes "client ki = None" and "snd (init_result w reg ki) = None"
  shows "Gather w reg ki =
     (let reg1 = init_registry w reg ki;
          ki1 = (init_config w reg ki)\<lparr>client := fst (init_result w reg ki)\<rparr>;
          fs = (if ResourceInclude ki1 = [] then map (Some \<circ> snd) reg1
                else map (map_of reg1) (ResourceInclude ki1))
      in (reg1, ki1,
          if None \<in> set fs then crash_report w ki1 (init_calls w reg ki) fs
          else \<lparr>calls = init_calls w reg ki, launched = fs,
                emitted = mset (concat (map (\<lambda>f. collect w (the f) ki1) fs)),
                outcome = Returned None, result = Some None\<rparr>))"
proof -
  obtain c where "init_result w reg ki = (c, None)"
    using assms(2) by (metis prod.collapse)
  then show ?thesis
    using assms(1) by (simp add: Gather_def initClient_parts Let_def)
qed

lemma init_config_include [simp]:
  "ResourceInclude (init_config w reg ki) = ResourceInclude ki"
  by (simp add: init_config_def initClient_def Let_def split: sum.splits)

lemma init_config_exclude [simp]:
  "ResourceExclude (init_config w reg ki) = ResourceExclude ki"
  by (simp add: init_config_def initClient_def Let_def split: sum.splits)

subsection \<open>What a poll returns\<close>

lemma Gather_fresh:
  assumes "client ki = None"
  shows "calls (report_of w reg ki) = init_calls w reg ki
       \<and> client (config_after w reg ki) = fst (init_result w reg ki)
       \<and> registry_after w reg ki = init_registry w reg ki"
proof (cases "snd (init_result w reg ki)")
  case None
  with assms show ?thesis
    by (simp add: Gather_init_ok report_of_def config_after_def registry_after_def Let_def)
next
  case (Some e)
  with assms show ?thesis
    by (simp add: Gather_init_failed report_of_def config_after_def registry_after_def)
qed

lemma registry_after_distinct:
  assumes "distinct (map fst reg)"
  shows "distinct (map fst (registry_after w reg ki))"
proof (cases "client ki")
  case None
  then have "registry_after w reg ki = init_registry w reg ki"
    using Gather_fresh by blast
  with assms show ?thesis
    by (simp add: init_registry_eq distinct_fold_delete)
next
  case (Some c)
  with assms show ?thesis
    by (simp add: registry_after_def Gather_cached Let_def)
qed

lemma init_result_collect [simp]:
  "init_result (w\<lparr>collect := cf\<rparr>) reg ki = init_result w reg ki"
  by (simp add: init_result_eq split: sum.splits)

lemma init_registry_include:
  "ResourceInclude ki \<noteq> [] \<Longrightarrow> init_registry w reg ki = reg"
  by (simp add: init_registry_eq)

lemma Gather_ready:
  assumes "client_ready w reg ki"
  shows "launched (report_of w reg ki) =
           (if ResourceInclude ki = [] then map (Some \<circ> snd) (registry_after w reg ki)
            else map (map_of reg) (ResourceInclude ki))
       \<and> outcome (report_of w reg ki) =
           (if None \<in> set (launched (report_of w reg ki)) then Panicked else Returned None)
       \<and> registry_after w reg ki =
           (if client ki = None then init_registry w reg ki else reg)"
proof (cases "client ki")
  case None
  with assms have "snd (init_result w reg ki) = None"
    by (simp add: client_ready_def)
  with None show ?thesis
    by (simp add: Gather_init_ok report_of_def registry_after_def Let_def init_registry_include)
next
  case (Some c)
  then show ?thesis
    by (simp add: Gather_cached report_of_def registry_after_def Let_def)
qed

lemma polls_cached:
  assumes "client ki = Some c"
  shows "\<forall>p \<in> set (polls ws reg ki). client (fst (snd p)) = Some c \<and> calls (snd (snd p)) = []"
  using assms
proof (induction ws arbitrary: reg)
  case Nil
  show ?case by simp
next
  case (Cons w ws)
  show ?case
    using Cons.IH [OF Cons.prems, of reg] Cons.prems
    by (simp add: Gather_cached Let_def)
qed

lemma routines_Some [simp]: "routines (map (Some \<circ> f) xs) = map f xs"
  by (induction xs) (simp_all add: routines_def)

lemma init_config_token:
  "BearerToken ki \<noteq> [] \<Longrightarrow> ReadFile w (BearerToken ki) = Inr content \<Longrightarrow>
     init_config w reg ki = ki\<lparr>BearerTokenString := TrimSpace content\<rparr>"
  by (simp add: init_config_def initClient_def Let_def)

lemma client_ready_exclude [simp]:
  "client_ready w reg (ki\<lparr>ResourceExclude := ex\<rparr>) = client_ready w reg ki"
  by (simp add: client_ready_def init_result_eq split: sum.splits)

lemma Gather_ready_emitted:
  assumes "client_ready w reg ki" and "None \<notin> set (launched (report_of w reg ki))"
  shows "emitted (report_of w reg ki) =
           mset (concat (map (\<lambda>f. collect w (the f) (config_after w reg ki))
                   (launched (report_of w reg ki))))
       \<and> result (report_of w reg ki) = Some None"
proof (cases "client ki")
  case None
  with assms(1) have "snd (init_result w reg ki) = None"
    by (simp add: client_ready_def)
  with None assms(2) show ?thesis
    by (simp add: Gather_init_ok report_of_def config_after_def Let_def split: if_splits)
next
  case (Some c)
  with assms(2) show ?thesis
    by (simp add: Gather_cached report_of_def config_after_def Let_def split: if_splits)
qed

lemma map_of_image_Some:
  assumes "set ns \<subseteq> fst ` set reg"
  shows "None \<notin> set (map (map_of reg) ns)"
proof
  assume "None \<in> set (map (map_of reg) ns)"
  then obtain n where "n \<in> set ns" and "map_of reg n = None"
    by (auto simp: image_iff)
  with assms show False
    by (auto simp: map_of_eq_None_iff)
qed

text \<open>
  A poll with a client, and with no include name outside the registry, returns nil to a
  process that goes on, after every launched unit has given all its records to the
  accumulator.
\<close>

lemma ready_poll_returns_nil:
  assumes "client_ready w reg ki"
    and "ResourceInclude ki = [] \<or> set (ResourceInclude ki) \<subseteq> fst ` set reg"
  shows "None \<notin> set (launched (report_of w reg ki))
       \<and> outcome (report_of w reg ki) = Returned None
       \<and> result (report_of w reg ki) = Some None
       \<and> emitted (report_of w reg ki) =
           mset (concat (map (\<lambda>f. collect w (the f) (config_after w reg ki))
                   (launched (report_of w reg ki))))"
proof -
  note g = Gather_ready [OF assms(1)]
  have n: "None \<notin> set (launched (report_of w reg ki))"
  proof (cases "ResourceInclude ki = []")
    case True
    with g show ?thesis by auto
  next
    case False
    with assms(2) have "set (ResourceInclude ki) \<subseteq> fst ` set reg"
      by simp
    then have "None \<notin> set (map (map_of reg) (ResourceInclude ki))"
      by (rule map_of_image_Some)
    with False g show ?thesis by simp
  qed
  with g Gather_ready_emitted [OF assms(1) n] show ?thesis
    by simp
qed

subsection \<open>Trimming\<close>

declare trim_runes.simps [simp del]

lemma strip_rune_None_iff:
  "strip_rune rs s = None \<longleftrightarrow> (\<forall>r \<in> set rs. r = [] \<or> \<not> prefix r s)"
  by (induction rs) auto

lemma strip_rune_Some:
  "strip_rune rs s = Some t \<Longrightarrow> \<exists>r \<in> set rs. s = r @ t"
  by (induction rs) (auto split: if_splits simp: prefix_def)

lemma trim_runes_done: "strip_rune rs (trim_runes rs s) = None"
proof (induction rs s rule: trim_runes.induct)
  case (1 rs s)
  show ?case
  proof (cases "strip_rune rs s")
    case None
    then show ?thesis by (simp add: trim_runes.simps [of rs s])
  next
    case (Some t)
    with "1.IH" show ?thesis by (simp add: trim_runes.simps [of rs s])
  qed
qed

lemma trim_runes_split:
  "\<exists>ls. set ls \<subseteq> set rs \<and> s = concat ls @ trim_runes rs s"
proof (induction rs s rule: trim_runes.induct)
  case (1 rs s)
  show ?case
  proof (cases "strip_rune rs s")
    case None
    then have "set [] \<subseteq> set rs \<and> s = concat [] @ trim_runes rs s"
      by (simp add: trim_runes.simps [of rs s])
    then show ?thesis by blast
  next
    case (Some t)
    then obtain r where r: "r \<in> set rs" "s = r @ t"
      using strip_rune_Some by blast
    from "1.IH" [OF Some] obtain ls where ls: "set ls \<subseteq> set rs" "t = concat ls @ trim_runes rs t"
      by blast
    have "trim_runes rs s = trim_runes rs t"
      using Some by (simp add: trim_runes.simps [of rs s])
    then have "set (r # ls) \<subseteq> set rs \<and> s = concat (r # ls) @ trim_runes rs s"
      using r ls by simp
    then show ?thesis by blast
  qed
qed

lemma space_runes_not_Nil: "[] \<notin> set space_runes"
  by (simp add: space_runes_def)

lemma TrimSpace_split:
  "\<exists>ls rs. set ls \<subseteq> set space_runes \<and> set rs \<subseteq> set space_runes
       \<and> s = concat ls @ TrimSpace s @ concat rs"
proof -
  obtain ls where ls: "set ls \<subseteq> set space_runes" "s = concat ls @ TrimLeft s"
    unfolding TrimLeft_def using trim_runes_split by blast
  obtain ms where ms: "set ms \<subseteq> set (map rev space_runes)"
      "rev (TrimLeft s) = concat ms @ trim_runes (map rev space_runes) (rev (TrimLeft s))"
    using trim_runes_split by blast
  have "TrimLeft s = rev (rev (TrimLeft s))"
    by simp
  also have "\<dots> = TrimSpace s @ rev (concat ms)"
    by (subst ms(2)) (simp add: TrimSpace_def TrimRight_def)
  also have "rev (concat ms) = concat (map rev (rev ms))"
    by (simp add: rev_concat rev_map)
  finally have t: "TrimLeft s = TrimSpace s @ concat (map rev (rev ms))" .
  have "set (map rev (rev ms)) \<subseteq> set space_runes"
    using ms(1) by auto
  with ls t show ?thesis
    by metis
qed

lemma TrimSpace_no_suffix:
  assumes "r \<in> set space_runes"
  shows "\<not> suffix r (TrimSpace s)"
proof
  assume "suffix r (TrimSpace s)"
  then have "prefix (rev r) (trim_runes (map rev space_runes) (rev (TrimLeft s)))"
    by (simp add: TrimSpace_def TrimRight_def suffix_to_prefix)
  moreover have "rev r \<in> set (map rev space_runes)" and "rev r \<noteq> []"
    using assms space_runes_not_Nil by auto
  ultimately have "strip_rune (map rev space_runes)
      (trim_runes (map rev space_runes) (rev (TrimLeft s))) \<noteq> None"
    unfolding strip_rune_None_iff by blast
  then show False
    by (simp add: trim_runes_done)
qed

lemma TrimSpace_no_prefix:
  assumes "r \<in> set space_runes"
  shows "\<not> prefix r (TrimSpace s)"
proof
  assume p: "prefix r (TrimSpace s)"
  obtain ms where "rev (TrimLeft s) = concat ms @ trim_runes (map rev space_runes) (rev (TrimLeft s))"
    using trim_runes_split by blast
  then have "rev (rev (TrimLeft s)) = TrimSpace s @ rev (concat ms)"
    by (metis TrimSpace_def TrimRight_def rev_append)
  then have "prefix (TrimSpace s) (TrimLeft s)"
    by (simp add: prefix_def)
  with p have "prefix r (trim_runes space_runes s)"
    unfolding TrimLeft_def by (rule prefix_order.trans)
  moreover have "r \<noteq> []"
    using assms space_runes_not_Nil by auto
  ultimately have "strip_rune space_runes (trim_runes space_runes s) \<noteq> None"
    unfolding strip_rune_None_iff using assms by blast
  then show False
    by (simp add: trim_runes_done)
qed

lemma TrimSpace_sample: "TrimSpace token_content = ''abc_123''"
  by code_simp

section \<open>The claims\<close>

subsection \<open>Exclusions and the shared registry\<close>

text \<open>
  Claim C1 says that resolving the exclusions of one poll deletes nothing from the shared
  registry for good, so that a poll with an empty exclude list that follows a poll
  excluding nodes runs the nodes collector. The code deletes the excluded names from the
  package-level map itself. Here the first poll excludes nodes; the second poll, by a
  fresh receiver with empty include and exclude lists, returns nil without having launched
  the nodes collector, which the same receiver launches on the untouched registry. Nor is
  the nodes collector launched when the second poll is by the first receiver with its
  exclude list emptied.
\<close>

theorem exclusion_leaks_counterexample:
  "Some collectNodes \<in> set (launched (report_of good_world availableCollectors new_input))
   \<and> Some collectNodes \<notin> set (launched (report_of good_world
        (registry_after good_world availableCollectors (new_input\<lparr>ResourceExclude := [''nodes'']\<rparr>))
        new_input))
   \<and> outcome (report_of good_world
        (registry_after good_world availableCollectors (new_input\<lparr>ResourceExclude := [''nodes'']\<rparr>))
        new_input) = Returned None
   \<and> Some collectNodes \<notin> set (launched (report_of good_world
        (registry_after good_world availableCollectors (new_input\<lparr>ResourceExclude := [''nodes'']\<rparr>))
        ((config_after good_world availableCollectors (new_input\<lparr>ResourceExclude := [''nodes'']\<rparr>))
           \<lparr>ResourceExclude := []\<rparr>)))"
proof -
  let ?left = "[(''daemonsets'', collectDaemonSets), (''deployments'', collectDeployments),
          (''persistentvolumes'', collectPersistentVolumes),
          (''persistentvolumeclaims'', collectPersistentVolumeClaims),
          (''pods'', collectPods), (''statefulsets'', collectStatefulSets)]"
  have r: "registry_after good_world availableCollectors (new_input\<lparr>ResourceExclude := [''nodes'']\<rparr>)
       = ?left"
    by (simp add: registry_after_def Gather_def initClient_def new_input_def good_world_def
        availableCollectors_def)
  have k: "config_after good_world availableCollectors (new_input\<lparr>ResourceExclude := [''nodes'']\<rparr>)
       = new_input\<lparr>ResourceExclude := [''nodes''], client := Some []\<rparr>"
    by (simp add: config_after_def Gather_def initClient_def new_input_def good_world_def
        availableCollectors_def)
  have a: "Some collectNodes \<in> set (launched (report_of good_world availableCollectors new_input))"
    by (simp add: report_of_def Gather_def initClient_def new_input_def good_world_def
        availableCollectors_def)
  have b: "launched (report_of good_world ?left new_input)
           = [Some collectDaemonSets, Some collectDeployments, Some collectPersistentVolumes,
              Some collectPersistentVolumeClaims, Some collectPods, Some collectStatefulSets]
       \<and> outcome (report_of good_world ?left new_input) = Returned None"
    by (simp add: report_of_def Gather_def initClient_def new_input_def good_world_def)
  have c: "launched (report_of good_world ?left
             (new_input\<lparr>ResourceExclude := [''nodes''], client := Some [], ResourceExclude := []\<rparr>))
           = [Some collectDaemonSets, Some collectDeployments, Some collectPersistentVolumes,
              Some collectPersistentVolumeClaims, Some collectPods, Some collectStatefulSets]"
    by (simp add: report_of_def Gather_def new_input_def)
  show ?thesis
    using a b c by (simp add: r k)
qed

text \<open>
  Claim C1, amended: when the first poll has a nil client handle and an empty include
  list, it leaves the registry without its excluded names, whether or not its construction
  succeeds. A second poll on that registry, with an empty include list and a client that
  exists or is constructed without error, launches one unit per entry still in the
  registry: the entries the first poll left, less the second poll's own excluded names
  when the second poll constructs its client. No name the first poll excluded is in the
  registry afterwards.
\<close>

theorem exclusions_persist:
  assumes "client ki1 = None" and "ResourceInclude ki1 = []"
    and "ResourceInclude ki2 = []" and "client_ready w2 (registry_after w1 reg ki1) ki2"
  shows "registry_after w1 reg ki1 = fold AList.delete (ResourceExclude ki1) reg
       \<and> launched (report_of w2 (registry_after w1 reg ki1) ki2) =
           map (Some \<circ> snd)
             (if client ki2 = None
              then fold AList.delete (ResourceExclude ki2)
                     (fold AList.delete (ResourceExclude ki1) reg)
              else fold AList.delete (ResourceExclude ki1) reg)
       \<and> (\<forall>n \<in> set (ResourceExclude ki1).
             map_of (registry_after w2 (registry_after w1 reg ki1) ki2) n = None)"
proof -
  have a: "registry_after w1 reg ki1 = fold AList.delete (ResourceExclude ki1) reg"
    using Gather_fresh [OF assms(1), of w1 reg] assms(2) by (simp add: init_registry_eq)
  note g = Gather_ready [OF assms(4)]
  have b: "registry_after w2 (registry_after w1 reg ki1) ki2 =
             (if client ki2 = None
              then fold AList.delete (ResourceExclude ki2)
                     (fold AList.delete (ResourceExclude ki1) reg)
              else fold AList.delete (ResourceExclude ki1) reg)"
    using g assms(3) by (simp add: a init_registry_eq)
  have c: "launched (report_of w2 (registry_after w1 reg ki1) ki2) =
             map (Some \<circ> snd) (registry_after w2 (registry_after w1 reg ki1) ki2)"
    using g assms(3) by simp
  have d: "\<forall>n \<in> set (ResourceExclude ki1).
             map_of (registry_after w2 (registry_after w1 reg ki1) ki2) n = None"
    unfolding b by (simp add: map_of_fold_delete restrict_map_def)
  from a b c d show ?thesis
    by simp
qed

text \<open>The theorem at the two polls above.\<close>

theorem exclusions_persist_witness:
  "client (new_input\<lparr>ResourceExclude := [''nodes'']\<rparr>) = None
   \<and> ResourceInclude (new_input\<lparr>ResourceExclude := [''nodes'']\<rparr>) = []
   \<and> ResourceInclude new_input = []
   \<and> client_ready good_world
        (registry_after good_world availableCollectors (new_input\<lparr>ResourceExclude := [''nodes'']\<rparr>))
        new_input
   \<and> launched (report_of good_world
        (registry_after good_world availableCollectors (new_input\<lparr>ResourceExclude := [''nodes'']\<rparr>))
        new_input)
       = [Some collectDaemonSets, Some collectDeployments, Some collectPersistentVolumes,
          Some collectPersistentVolumeClaims, Some collectPods, Some collectStatefulSets]"
proof -
  let ?k1 = "new_input\<lparr>ResourceExclude := [''nodes'']\<rparr>"
  have a: "client ?k1 = None" and b: "ResourceInclude ?k1 = []" and c: "ResourceInclude new_input = []"
    by (simp_all add: new_input_def)
  have d: "client_ready good_world (registry_after good_world availableCollectors ?k1) new_input"
    by (simp add: client_ready_def init_result_eq new_input_def good_world_def)
  have l: "launched (report_of good_world (registry_after good_world availableCollectors ?k1) new_input)
       = map (Some \<circ> snd)
           (if client new_input = None
            then fold AList.delete (ResourceExclude new_input)
                   (fold AList.delete (ResourceExclude ?k1) availableCollectors)
            else fold AList.delete (ResourceExclude ?k1) availableCollectors)"
    using exclusions_persist [OF a b c d] by blast
  have v: "map (Some \<circ> snd)
           (if client new_input = None
            then fold AList.delete (ResourceExclude new_input)
                   (fold AList.delete (ResourceExclude ?k1) availableCollectors)
            else fold AList.delete (ResourceExclude ?k1) availableCollectors)
       = [Some collectDaemonSets, Some collectDeployments, Some collectPersistentVolumes,
          Some collectPersistentVolumeClaims, Some collectPods, Some collectStatefulSets]"
    by (simp add: new_input_def availableCollectors_def)
  note l' = trans [OF l v]
  from a b c d l' show ?thesis
    by blast
qed

subsection \<open>A non-empty include list\<close>

text \<open>
  Claim C2 says that with a non-empty include list the collectors run by a poll are those
  of the include list that the registry holds, whatever the exclude list. A poll whose
  client construction fails returns before it launches anything: here the include list is
  \<^verbatim>\<open>["pods"]\<close>, the token file cannot be read, and no collector runs.
\<close>

theorem include_needs_client_counterexample:
  "launched (report_of good_world availableCollectors
      (new_input\<lparr>ResourceInclude := [''pods''], ResourceExclude := [''nodes''],
                 BearerToken := ''/no/such/token''\<rparr>)) = []
   \<and> include_selection availableCollectors [''pods''] = {collectPods}
   \<and> set (routines (launched (report_of good_world availableCollectors
      (new_input\<lparr>ResourceInclude := [''pods''], ResourceExclude := [''nodes''],
                 BearerToken := ''/no/such/token''\<rparr>))))
       \<noteq> include_selection availableCollectors [''pods'']"
proof -
  have a: "launched (report_of good_world availableCollectors
      (new_input\<lparr>ResourceInclude := [''pods''], ResourceExclude := [''nodes''],
                 BearerToken := ''/no/such/token''\<rparr>)) = []"
    by (simp add: report_of_def Gather_def initClient_def new_input_def good_world_def
        token_file_def)
  have b: "include_selection availableCollectors [''pods''] = {collectPods}"
    by (simp add: include_selection_def routines_def availableCollectors_def)
  show ?thesis
    by (simp add: a b routines_def)
qed

text \<open>
  Claim C2, amended: with a non-empty include list of registered names, a poll whose
  client exists or is constructed without error launches one unit per entry of the include
  list, with the routine registered under that name, and returns nil; the collectors run
  are the include list intersected with the registry. The exclude list \<open>ex\<close> changes
  neither the launched routines nor the outcome, and the registry is left as it was.
  (What a poll does with an include name that is not registered is the subject of C3.)
\<close>

theorem include_list_selects:
  assumes "ResourceInclude ki \<noteq> []" and "client_ready w reg ki"
    and "set (ResourceInclude ki) \<subseteq> fst ` set reg"
  shows "launched (report_of w reg ki) = map (map_of reg) (ResourceInclude ki)
       \<and> set (routines (launched (report_of w reg ki)))
           = include_selection reg (ResourceInclude ki)
       \<and> outcome (report_of w reg ki) = Returned None
       \<and> registry_after w reg ki = reg
       \<and> launched (report_of w reg (ki\<lparr>ResourceExclude := ex\<rparr>)) = launched (report_of w reg ki)
       \<and> outcome (report_of w reg (ki\<lparr>ResourceExclude := ex\<rparr>)) = outcome (report_of w reg ki)
       \<and> registry_after w reg (ki\<lparr>ResourceExclude := ex\<rparr>) = reg"
proof -
  let ?ki = "ki\<lparr>ResourceExclude := ex\<rparr>"
  have r: "client_ready w reg ?ki"
    using assms(2) by simp
  have n: "None \<notin> set (map (map_of reg) (ResourceInclude ki))"
    using assms(3) by (rule map_of_image_Some)
  have l: "launched (report_of w reg ki) = map (map_of reg) (ResourceInclude ki)"
    and o: "outcome (report_of w reg ki) = Returned None"
    and g: "registry_after w reg ki = reg"
    using Gather_ready [OF assms(2)] assms(1) n by (simp_all add: init_registry_include)
  have l': "launched (report_of w reg ?ki) = map (map_of reg) (ResourceInclude ki)"
    and o': "outcome (report_of w reg ?ki) = Returned None"
    and g': "registry_after w reg ?ki = reg"
    using Gather_ready [OF r] assms(1) n by (simp_all add: init_registry_include)
  show ?thesis
    by (simp add: l o g l' o' g' include_selection_def)
qed

text \<open>
  The theorem at an include list that names pods twice, with and without nodes excluded.
\<close>

theorem include_list_selects_witness:
  "ResourceInclude (new_input\<lparr>ResourceInclude := [''pods'', ''nodes'', ''pods'']\<rparr>) \<noteq> []
   \<and> client_ready good_world availableCollectors
        (new_input\<lparr>ResourceInclude := [''pods'', ''nodes'', ''pods'']\<rparr>)
   \<and> set (ResourceInclude (new_input\<lparr>ResourceInclude := [''pods'', ''nodes'', ''pods'']\<rparr>))
        \<subseteq> fst ` set availableCollectors
   \<and> launched (report_of good_world availableCollectors
        (new_input\<lparr>ResourceInclude := [''pods'', ''nodes'', ''pods'']\<rparr>))
       = [Some collectPods, Some collectNodes, Some collectPods]
   \<and> launched (report_of good_world availableCollectors
        (new_input\<lparr>ResourceInclude := [''pods'', ''nodes'', ''pods''],
                   ResourceExclude := [''nodes'']\<rparr>))
       = [Some collectPods, Some collectNodes, Some collectPods]
   \<and> registry_after good_world availableCollectors
        (new_input\<lparr>ResourceInclude := [''pods'', ''nodes'', ''pods''],
                   ResourceExclude := [''nodes'']\<rparr>) = availableCollectors"
proof -
  let ?ki = "new_input\<lparr>ResourceInclude := [''pods'', ''nodes'', ''pods'']\<rparr>"
  have a: "ResourceInclude ?ki \<noteq> []"
    by simp
  have b: "client_ready good_world availableCollectors ?ki"
    by (simp add: client_ready_def init_result_eq new_input_def good_world_def)
  have c: "set (ResourceInclude ?ki) \<subseteq> fst ` set availableCollectors"
    by (simp add: availableCollectors_def)
  note t = include_list_selects [OF a b c, of "[''nodes'']"]
  have v: "map (map_of availableCollectors) (ResourceInclude ?ki)
             = [Some collectPods, Some collectNodes, Some collectPods]"
    by (simp add: availableCollectors_def)
  have l: "launched (report_of good_world availableCollectors ?ki)
             = map (map_of availableCollectors) (ResourceInclude ?ki)"
    using t by blast
  have m: "launched (report_of good_world availableCollectors (?ki\<lparr>ResourceExclude := [''nodes'']\<rparr>))
             = launched (report_of good_world availableCollectors ?ki)"
    using t by blast
  have g: "registry_after good_world availableCollectors (?ki\<lparr>ResourceExclude := [''nodes'']\<rparr>)
             = availableCollectors"
    using t by blast
  note l' = trans [OF l v]
  note m' = trans [OF m l']
  from a b c l' m' g show ?thesis
    by blast
qed

subsection \<open>An include list with an unknown name\<close>

text \<open>
  Claim C3 says that a poll whose include list holds a name absent from the registry does
  not crash, the absent routine being invoked as a no-op. In the code the lookup
  \<^verbatim>\<open>availableCollectors[n]\<close> yields a nil function value for such a name, and the
  goroutine calls it: the poll panics. Here the include list is
  \<^verbatim>\<open>["pods", "bogus"]\<close>, the client is constructed without error, and the second
  function value handed to a goroutine is nil.
\<close>

theorem unknown_include_panics:
  "launched (report_of good_world availableCollectors
       (new_input\<lparr>ResourceInclude := [''pods'', ''bogus'']\<rparr>)) = [Some collectPods, None]
   \<and> outcome (report_of good_world availableCollectors
       (new_input\<lparr>ResourceInclude := [''pods'', ''bogus'']\<rparr>)) = Panicked"
  by (simp add: report_of_def Gather_def initClient_def new_input_def good_world_def
      availableCollectors_def)

subsection \<open>Empty include and exclude lists\<close>

text \<open>
  Claim C4 says that with empty include and exclude lists a poll runs every registered
  collector exactly once. A poll whose client construction fails returns before it
  launches anything: here both lists are empty, the token file cannot be read, and none
  of the seven registered collectors runs.
\<close>

theorem run_all_needs_client_counterexample:
  "ResourceInclude (new_input\<lparr>BearerToken := ''/no/such/token''\<rparr>) = []
   \<and> ResourceExclude (new_input\<lparr>BearerToken := ''/no/such/token''\<rparr>) = []
   \<and> launched (report_of good_world availableCollectors
        (new_input\<lparr>BearerToken := ''/no/such/token''\<rparr>)) = []
   \<and> routines (launched (report_of good_world availableCollectors
        (new_input\<lparr>BearerToken := ''/no/such/token''\<rparr>))) \<noteq> map snd availableCollectors"
proof -
  let ?ki = "new_input\<lparr>BearerToken := ''/no/such/token''\<rparr>"
  have i: "ResourceInclude ?ki = []" and x: "ResourceExclude ?ki = []"
    by (simp_all add: new_input_def)
  have a: "launched (report_of good_world availableCollectors ?ki) = []"
    by (simp add: report_of_def Gather_def initClient_def new_input_def good_world_def
        token_file_def)
  have b: "routines (launched (report_of good_world availableCollectors ?ki))
             \<noteq> map snd availableCollectors"
    unfolding a by (simp add: routines_def availableCollectors_def)
  from i x a b show ?thesis
    by blast
qed

text \<open>
  Claim C4, amended: with empty include and exclude lists, a poll whose client exists or
  is constructed without error launches exactly one unit per entry of the registry, each
  with that entry's routine; every routine hands its records to the accumulator once, the
  poll returns nil and the registry is left as it was.
\<close>

theorem empty_lists_run_all:
  assumes "ResourceInclude ki = []" and "ResourceExclude ki = []" and "client_ready w reg ki"
  shows "launched (report_of w reg ki) = map (Some \<circ> snd) reg
       \<and> routines (launched (report_of w reg ki)) = map snd reg
       \<and> emitted (report_of w reg ki)
           = mset (concat (map (\<lambda>p. collect w (snd p) (config_after w reg ki)) reg))
       \<and> outcome (report_of w reg ki) = Returned None
       \<and> registry_after w reg ki = reg"
proof -
  have g: "registry_after w reg ki = reg"
    using Gather_ready [OF assms(3)] assms(1,2) by (simp add: init_registry_eq)
  have l: "launched (report_of w reg ki) = map (Some \<circ> snd) reg"
    using Gather_ready [OF assms(3)] assms(1) g by simp
  have n: "None \<notin> set (launched (report_of w reg ki))"
    by (auto simp: l)
  have o: "outcome (report_of w reg ki) = Returned None"
    using Gather_ready [OF assms(3)] n by simp
  have e: "emitted (report_of w reg ki)
           = mset (concat (map (\<lambda>p. collect w (snd p) (config_after w reg ki)) reg))"
    using Gather_ready_emitted [OF assms(3)] n by (simp add: l comp_def)
  from g l o e show ?thesis
    by simp
qed

text \<open>The theorem at the registry of seven collectors.\<close>

theorem empty_lists_run_all_witness:
  "ResourceInclude new_input = [] \<and> ResourceExclude new_input = []
   \<and> client_ready good_world availableCollectors new_input
   \<and> routines (launched (report_of good_world availableCollectors new_input))
       = [collectDaemonSets, collectDeployments, collectNodes, collectPersistentVolumes,
          collectPersistentVolumeClaims, collectPods, collectStatefulSets]
   \<and> outcome (report_of good_world availableCollectors new_input) = Returned None"
proof -
  have a: "ResourceInclude new_input = []" and b: "ResourceExclude new_input = []"
    by (simp_all add: new_input_def)
  have c: "client_ready good_world availableCollectors new_input"
    by (simp add: client_ready_def init_result_eq new_input_def good_world_def)
  have "routines (launched (report_of good_world availableCollectors new_input))
          = map snd availableCollectors
      \<and> outcome (report_of good_world availableCollectors new_input) = Returned None"
    using empty_lists_run_all [OF a b c] by simp
  then show ?thesis
    using a b c by (simp add: availableCollectors_def)
qed

subsection \<open>A failed construction\<close>

text \<open>
  Claim C5: whenever client construction fails during a poll (the client is nil and
  \<^verbatim>\<open>initClient\<close> returns the error \<open>e\<close>), the poll returns that error at once, no
  collector is launched and nothing reaches the accumulator, no client handle is kept, and
  the next poll, in any world \<open>w2\<close>, calls \<^verbatim>\<open>initClient\<close> again: its collaborator
  calls are those of a construction and the handle it keeps is the one this second
  construction returns.
\<close>

theorem construction_failure_not_cached:
  assumes "client ki = None" and "snd (init_result w reg ki) = Some e" and "nil_on_error w"
  shows "outcome (report_of w reg ki) = Returned (Some e)
       \<and> launched (report_of w reg ki) = []
       \<and> emitted (report_of w reg ki) = {#}
       \<and> client (config_after w reg ki) = None
       \<and> calls (report_of w2 (registry_after w reg ki) (config_after w reg ki))
           = init_calls w2 (registry_after w reg ki) (config_after w reg ki)
       \<and> init_calls w2 (registry_after w reg ki) (config_after w reg ki) \<noteq> []
       \<and> client (config_after w2 (registry_after w reg ki) (config_after w reg ki))
           = fst (init_result w2 (registry_after w reg ki) (config_after w reg ki))"
proof -
  have g: "Gather w reg ki =
     (init_registry w reg ki, (init_config w reg ki)\<lparr>client := fst (init_result w reg ki)\<rparr>,
      \<lparr>calls = init_calls w reg ki, launched = [], emitted = {#},
       outcome = Returned (Some e), result = Some (Some e)\<rparr>)"
    using assms(1,2) by (rule Gather_init_failed)
  have h: "fst (init_result w reg ki) = None"
    using assms(3,2) by (rule init_result_nil_on_error)
  have n: "client (config_after w reg ki) = None"
    by (simp add: g h config_after_def)
  show ?thesis
    using Gather_fresh [OF n, of w2 "registry_after w reg ki"] n
    by (simp add: g report_of_def init_calls_not_Nil)
qed

text \<open>
  The theorem at a poll whose constructor fails, followed by a poll whose constructor
  succeeds.
\<close>

theorem construction_failure_not_cached_witness:
  "client new_input = None
   \<and> snd (init_result bad_world availableCollectors new_input)
       = Some (Error ''tls: failed to find any PEM data'')
   \<and> nil_on_error bad_world
   \<and> outcome (report_of bad_world availableCollectors new_input)
       = Returned (Some (Error ''tls: failed to find any PEM data''))
   \<and> launched (report_of bad_world availableCollectors new_input) = []
   \<and> client (config_after bad_world availableCollectors new_input) = None
   \<and> calls (report_of good_world (registry_after bad_world availableCollectors new_input)
        (config_after bad_world availableCollectors new_input))
       = [CallNewClient [] ''default'' [] 5000000000 ()]
   \<and> client (config_after good_world (registry_after bad_world availableCollectors new_input)
        (config_after bad_world availableCollectors new_input)) = Some []"
proof -
  have a: "client new_input = None"
    by (simp add: new_input_def)
  have b: "snd (init_result bad_world availableCollectors new_input)
             = Some (Error ''tls: failed to find any PEM data'')"
    by (simp add: init_result_eq new_input_def bad_world_def good_world_def)
  have c: "nil_on_error bad_world"
    by (simp add: nil_on_error_def bad_world_def good_world_def)
  have d: "init_config bad_world availableCollectors new_input = new_input"
    by (simp add: init_config_def initClient_def new_input_def)
  have k: "config_after bad_world availableCollectors new_input = new_input"
    using a b d by (simp add: config_after_def Gather_init_failed init_result_eq
        bad_world_def good_world_def new_input_def)
  have e: "init_calls good_world (registry_after bad_world availableCollectors new_input) new_input
             = [CallNewClient [] ''default'' [] 5000000000 ()]"
    by (simp add: init_calls_eq new_input_def)
  have f: "fst (init_result good_world (registry_after bad_world availableCollectors new_input)
             new_input) = Some []"
    by (simp add: init_result_eq new_input_def good_world_def)
  show ?thesis
    using construction_failure_not_cached [OF a b c, where ?w2.0 = good_world] a b c
    by (simp add: k e f)
qed

subsection \<open>The value a poll returns\<close>

text \<open>
  Claim C6 says that every poll in which the client handle exists or is constructed
  successfully returns nil once the launched units have finished. In the code a poll
  whose include list holds a name the registry does not launches a nil function value,
  and the goroutine that calls it panics. Here the client is constructed without error
  and the include list is \<^verbatim>\<open>["bogus"]\<close>: the process ends by the panic in every run;
  when it ends at once the poll never returns, and when \<^verbatim>\<open>wg.Wait()\<close> is released
  first \<^verbatim>\<open>Gather\<close> hands nil to its caller in a process that is about to end. This is
  the defect of C3. With no nil function value among the launched ones the poll does
  return nil after every unit has run (\<open>ready_poll_returns_nil\<close>).
\<close>

theorem unknown_include_never_returns:
  "client (new_input\<lparr>ResourceInclude := [''bogus'']\<rparr>) = None
   \<and> init_result good_world availableCollectors (new_input\<lparr>ResourceInclude := [''bogus'']\<rparr>)
       = (Some [], None)
   \<and> outcome (report_of good_world availableCollectors
        (new_input\<lparr>ResourceInclude := [''bogus'']\<rparr>)) = Panicked
   \<and> result (report_of good_world availableCollectors
        (new_input\<lparr>ResourceInclude := [''bogus'']\<rparr>)) = None
   \<and> outcome (report_of (good_world\<lparr>schedule := ReturnFirst\<rparr>) availableCollectors
        (new_input\<lparr>ResourceInclude := [''bogus'']\<rparr>)) = Panicked
   \<and> result (report_of (good_world\<lparr>schedule := ReturnFirst\<rparr>) availableCollectors
        (new_input\<lparr>ResourceInclude := [''bogus'']\<rparr>)) = Some None"
  by (simp add: report_of_def Gather_def initClient_def init_result_eq crash_report_def
      new_input_def good_world_def availableCollectors_def)

subsection \<open>One construction for many polls\<close>

text \<open>
  Claim C7: in a sequence of polls whose first construction succeeds (it returns the
  handle \<open>c\<close> and a nil error), \<^verbatim>\<open>initClient\<close> is called once: every poll of the
  sequence ends with the handle \<open>c\<close> in place, and no poll after the first makes a
  collaborator call of client construction.
\<close>

theorem client_constructed_once:
  assumes "client ki = None" and "init_result w reg ki = (Some c, None)"
  shows "constructions (polls (w # ws) reg ki) = 1
       \<and> (\<forall>p \<in> set (polls (w # ws) reg ki). client (fst (snd p)) = Some c)
       \<and> (\<forall>p \<in> set (polls ws (registry_after w reg ki) (config_after w reg ki)).
             calls (snd (snd p)) = [])"
proof -
  let ?reg = "registry_after w reg ki" and ?ki = "config_after w reg ki"
  have e: "snd (init_result w reg ki) = None" and f: "fst (init_result w reg ki) = Some c"
    using assms(2) by simp_all
  have k: "client ?ki = Some c"
    using Gather_fresh [OF assms(1), of w reg] f by simp
  have c1: "calls (report_of w reg ki) \<noteq> []"
    using Gather_fresh [OF assms(1), of w reg] by (simp add: init_calls_not_Nil)
  note later = polls_cached [OF k, of ws ?reg]
  have p: "polls (w # ws) reg ki =
     (?reg, ?ki, report_of w reg ki) #
       (if outcome (report_of w reg ki) = Panicked then [] else polls ws ?reg ?ki)"
    by (simp add: registry_after_def config_after_def report_of_def split: prod.splits)
  have z: "filter (\<lambda>p. calls (snd (snd p)) \<noteq> []) (polls ws ?reg ?ki) = []"
    using later by (simp add: filter_empty_conv)
  show ?thesis
    unfolding p constructions_def using later k c1 z by simp
qed

text \<open>The theorem at three polls; the constructor of the second world would fail if called.\<close>

theorem client_constructed_once_witness:
  "client new_input = None
   \<and> init_result good_world availableCollectors new_input = (Some [], None)
   \<and> constructions (polls [good_world, bad_world, good_world] availableCollectors new_input) = 1"
proof -
  have a: "client new_input = None"
    by (simp add: new_input_def)
  have b: "init_result good_world availableCollectors new_input = (Some [], None)"
    by (simp add: init_result_eq new_input_def good_world_def)
  have n: "constructions (polls [good_world, bad_world, good_world] availableCollectors new_input) = 1"
    using client_constructed_once [OF a b, of "[bad_world, good_world]"] by blast
  from a b n show ?thesis
    by blast
qed

subsection \<open>The token file\<close>

text \<open>
  Claim C8: with a token file configured, \<^verbatim>\<open>initClient\<close> reads it. When the file
  cannot be read, the construction fails with the error of the read, a nil handle and no
  call of \<^verbatim>\<open>newClient\<close>, and a poll with a nil client returns that error: nothing
  panics. When the file is read, the token given to \<^verbatim>\<open>newClient\<close> and stored in
  \<^verbatim>\<open>BearerTokenString\<close> is the trimmed content: it neither starts nor ends with a
  white-space code point, and the content is this token between two runs of white space.
\<close>

theorem token_file_is_trimmed:
  assumes "BearerToken ki \<noteq> []"
  shows "(\<forall>err. ReadFile w (BearerToken ki) = Inl err \<longrightarrow>
            init_result w reg ki = (None, Some err)
          \<and> init_calls w reg ki = [CallReadFile (BearerToken ki)]
          \<and> (client ki = None \<longrightarrow> outcome (report_of w reg ki) = Returned (Some err)))
       \<and> (\<forall>content. ReadFile w (BearerToken ki) = Inr content \<longrightarrow>
            init_calls w reg ki =
              [CallReadFile (BearerToken ki),
               CallNewClient (URL ki) (Namespace ki) (TrimSpace content) (ResponseTimeout ki)
                 (ClientConfig ki)]
          \<and> BearerTokenString (init_config w reg ki) = TrimSpace content
          \<and> (\<forall>r \<in> set space_runes.
                \<not> prefix r (TrimSpace content) \<and> \<not> suffix r (TrimSpace content))
          \<and> (\<exists>ls rs. set ls \<subseteq> set space_runes \<and> set rs \<subseteq> set space_runes
                \<and> content = concat ls @ TrimSpace content @ concat rs))"
proof (intro conjI allI impI)
  fix err
  assume r: "ReadFile w (BearerToken ki) = Inl err"
  show "init_result w reg ki = (None, Some err)"
    using assms r by (simp add: init_result_eq)
  show "init_calls w reg ki = [CallReadFile (BearerToken ki)]"
    using assms r by (simp add: init_calls_eq)
  assume "client ki = None"
  moreover have "snd (init_result w reg ki) = Some err"
    using assms r by (simp add: init_result_eq)
  ultimately show "outcome (report_of w reg ki) = Returned (Some err)"
    by (simp add: Gather_init_failed report_of_def)
next
  fix content
  assume r: "ReadFile w (BearerToken ki) = Inr content"
  show "init_calls w reg ki =
          [CallReadFile (BearerToken ki),
           CallNewClient (URL ki) (Namespace ki) (TrimSpace content) (ResponseTimeout ki)
             (ClientConfig ki)]"
    using assms r by (simp add: init_calls_eq)
  show "BearerTokenString (init_config w reg ki) = TrimSpace content"
    using assms r by (simp add: init_config_token)
  show "\<forall>r \<in> set space_runes. \<not> prefix r (TrimSpace content) \<and> \<not> suffix r (TrimSpace content)"
    using TrimSpace_no_prefix TrimSpace_no_suffix by blast
  show "\<exists>ls rs. set ls \<subseteq> set space_runes \<and> set rs \<subseteq> set space_runes
          \<and> content = concat ls @ TrimSpace content @ concat rs"
    by (rule TrimSpace_split)
qed

text \<open>The theorem at a token file whose content is a space, a tab, the token and a line feed.\<close>

theorem token_file_is_trimmed_witness:
  "BearerToken (new_input\<lparr>BearerToken := token_file\<rparr>) \<noteq> []
   \<and> ReadFile good_world token_file = Inr token_content
   \<and> init_calls good_world availableCollectors (new_input\<lparr>BearerToken := token_file\<rparr>)
       = [CallReadFile token_file, CallNewClient [] ''default'' ''abc_123'' 5000000000 ()]
   \<and> BearerTokenString (init_config good_world availableCollectors
        (new_input\<lparr>BearerToken := token_file\<rparr>)) = ''abc_123''"
proof -
  let ?ki = "new_input\<lparr>BearerToken := token_file\<rparr>"
  have a: "BearerToken ?ki \<noteq> []"
    by (simp add: token_file_def)
  have r: "ReadFile good_world (BearerToken ?ki)
             = Inr token_content"
    by (simp add: good_world_def)
  have "init_calls good_world availableCollectors ?ki =
          [CallReadFile (BearerToken ?ki),
           CallNewClient (URL ?ki) (Namespace ?ki)
             (TrimSpace token_content)
             (ResponseTimeout ?ki) (ClientConfig ?ki)]
      \<and> BearerTokenString (init_config good_world availableCollectors ?ki)
          = TrimSpace token_content"
    using token_file_is_trimmed [OF a, of good_world availableCollectors] r by blast
  then show ?thesis
    using a r by (simp add: TrimSpace_sample new_input_def)
qed

text \<open>
  Claim C9: with a token file configured, the literal token of the configuration plays no
  part. Whatever \<open>literal\<close> is, \<^verbatim>\<open>initClient\<close> returns the same result and makes the
  same calls; when the file is read the client is constructed with the trimmed content of
  the file, which is the token of every call of \<^verbatim>\<open>newClient\<close>, and when the file
  cannot be read \<^verbatim>\<open>newClient\<close> is not called at all.
\<close>

theorem token_file_takes_priority:
  assumes "BearerToken ki \<noteq> []"
  shows "init_result w reg (ki\<lparr>BearerTokenString := literal\<rparr>) = init_result w reg ki
       \<and> init_calls w reg (ki\<lparr>BearerTokenString := literal\<rparr>) = init_calls w reg ki
       \<and> (\<forall>content. ReadFile w (BearerToken ki) = Inr content \<longrightarrow>
             init_result w reg (ki\<lparr>BearerTokenString := literal\<rparr>) =
               newClient w (URL ki) (Namespace ki) (TrimSpace content) (ResponseTimeout ki)
                 (ClientConfig ki)
           \<and> (\<forall>u n t d c.
                 CallNewClient u n t d c \<in> set (init_calls w reg (ki\<lparr>BearerTokenString := literal\<rparr>))
                   \<longrightarrow> t = TrimSpace content))
       \<and> (\<forall>err. ReadFile w (BearerToken ki) = Inl err \<longrightarrow>
             init_calls w reg (ki\<lparr>BearerTokenString := literal\<rparr>) = [CallReadFile (BearerToken ki)])"
  using assms by (simp add: init_result_eq init_calls_eq split: sum.splits)

text \<open>
  The theorem at a configuration with both the token file and a literal token: the client
  is the one built with the token of the file.
\<close>

theorem token_file_takes_priority_witness:
  "BearerToken (new_input\<lparr>BearerToken := token_file\<rparr>) \<noteq> []
   \<and> BearerTokenString (new_input\<lparr>BearerToken := token_file, BearerTokenString := ''literal''\<rparr>)
       = ''literal''
   \<and> init_result good_world availableCollectors
        (new_input\<lparr>BearerToken := token_file, BearerTokenString := ''literal''\<rparr>)
       = (Some ''abc_123'', None)"
proof -
  let ?ki = "new_input\<lparr>BearerToken := token_file\<rparr>"
  have a: "BearerToken ?ki \<noteq> []"
    by (simp add: token_file_def)
  have r: "ReadFile good_world (BearerToken ?ki)
             = Inr token_content"
    by (simp add: good_world_def)
  have "init_result good_world availableCollectors (?ki\<lparr>BearerTokenString := ''literal''\<rparr>) =
          newClient good_world (URL ?ki) (Namespace ?ki)
            (TrimSpace token_content)
            (ResponseTimeout ?ki) (ClientConfig ?ki)"
    using token_file_takes_priority [OF a, of good_world availableCollectors "''literal''"] r
    by blast
  then show ?thesis
    using a by (simp add: TrimSpace_sample good_world_def)
qed

subsection \<open>Deletions made before a failed construction\<close>

text \<open>
  Claim C10: client construction is not atomic with respect to the shared registry. With
  an empty include list \<^verbatim>\<open>initClient\<close> deletes every excluded name from the registry
  before it reads the token file or creates the client (the registry it leaves is the same
  in every world \<open>w'\<close>). So when the construction then fails, the poll returns the error,
  the client handle is nil, and the registry the poll leaves behind is the one without the
  excluded names.
\<close>

theorem exclusions_survive_failed_construction:
  assumes "client ki = None" and "ResourceInclude ki = []"
    and "snd (init_result w reg ki) = Some e" and "nil_on_error w"
  shows "init_registry w' reg ki = fold AList.delete (ResourceExclude ki) reg
       \<and> outcome (report_of w reg ki) = Returned (Some e)
       \<and> client (config_after w reg ki) = None
       \<and> registry_after w reg ki = fold AList.delete (ResourceExclude ki) reg
       \<and> map_of (registry_after w reg ki) = map_of reg |` (- set (ResourceExclude ki))"
proof -
  have g: "Gather w reg ki =
     (init_registry w reg ki, (init_config w reg ki)\<lparr>client := fst (init_result w reg ki)\<rparr>,
      \<lparr>calls = init_calls w reg ki, launched = [], emitted = {#},
       outcome = Returned (Some e), result = Some (Some e)\<rparr>)"
    using assms(1,3) by (rule Gather_init_failed)
  have h: "fst (init_result w reg ki) = None"
    using assms(4,3) by (rule init_result_nil_on_error)
  show ?thesis
    by (simp add: g h registry_after_def config_after_def report_of_def map_of_fold_delete
        init_registry_eq assms(2))
qed

text \<open>
  The theorem at a poll that excludes nodes and pods and whose constructor fails: the
  five other entries are what the registry holds afterwards.
\<close>

theorem exclusions_survive_failed_construction_witness:
  "client (new_input\<lparr>ResourceExclude := [''nodes'', ''pods'']\<rparr>) = None
   \<and> ResourceInclude (new_input\<lparr>ResourceExclude := [''nodes'', ''pods'']\<rparr>) = []
   \<and> nil_on_error bad_world
   \<and> outcome (report_of bad_world availableCollectors
         (new_input\<lparr>ResourceExclude := [''nodes'', ''pods'']\<rparr>))
       = Returned (Some (Error ''tls: failed to find any PEM data''))
   \<and> client (config_after bad_world availableCollectors
         (new_input\<lparr>ResourceExclude := [''nodes'', ''pods'']\<rparr>)) = None
   \<and> registry_after bad_world availableCollectors
         (new_input\<lparr>ResourceExclude := [''nodes'', ''pods'']\<rparr>)
       = [(''daemonsets'', collectDaemonSets), (''deployments'', collectDeployments),
          (''persistentvolumes'', collectPersistentVolumes),
          (''persistentvolumeclaims'', collectPersistentVolumeClaims),
          (''statefulsets'', collectStatefulSets)]"
proof -
  let ?ki = "new_input\<lparr>ResourceExclude := [''nodes'', ''pods'']\<rparr>"
  have a: "client ?ki = None" and b: "ResourceInclude ?ki = []"
    by (simp_all add: new_input_def)
  have c: "snd (init_result bad_world availableCollectors ?ki)
             = Some (Error ''tls: failed to find any PEM data'')"
    by (simp add: init_result_eq new_input_def bad_world_def good_world_def)
  have d: "nil_on_error bad_world"
    by (simp add: nil_on_error_def bad_world_def good_world_def)
  have e: "fold AList.delete (ResourceExclude ?ki) availableCollectors
       = [(''daemonsets'', collectDaemonSets), (''deployments'', collectDeployments),
          (''persistentvolumes'', collectPersistentVolumes),
          (''persistentvolumeclaims'', collectPersistentVolumeClaims),
          (''statefulsets'', collectStatefulSets)]"
    by (simp add: new_input_def availableCollectors_def)
  show ?thesis
    using exclusions_survive_failed_construction [OF a b c d, where w' = bad_world] a b d e
    by simp
qed

end
